theory Spec2Isabelle
  imports Complex_Main
begin

section \<open>Geometry generators of the hyper-rectangle (shapes.js)\<close>

text \<open>
  JavaScript numbers are modelled as reals (the specification's data model speaks of
  reals); vertex indices and loop counters are natural numbers. A JavaScript array is a
  list: a vertex is the list of its four coordinates, an edge the list of its two vertex
  indices, a face the list of its three vertex indices.

  The three generators start each iteration with the same array literal, which decodes
  the loop counter \<open>i\<close> into one digit per axis:
  \<^verbatim>\<open>[(i % 2), (i % 4 - i % 2) / 2, (i % 8 - i % 4) / 4, (i % 16 - i % 8) / 8]\<close>
\<close>

definition vert_digits :: "nat \<Rightarrow> real list" where
  "vert_digits i =
     [real (i mod 2),
      (real (i mod 4) - real (i mod 2)) / 2,
      (real (i mod 8) - real (i mod 4)) / 4,
      (real (i mod 16) - real (i mod 8)) / 8]"

text \<open>
  \<^verbatim>\<open>hyperboxVertexes(lx, ly, lz, lt)\<close>: the loop \<^verbatim>\<open>for (let i = 0; i < 2 ** 4; i++)\<close>
  with the array \<^verbatim>\<open>vertexes\<close> it pushes to.
\<close>

definition hyperbox_vert :: "real \<Rightarrow> real \<Rightarrow> real \<Rightarrow> real \<Rightarrow> nat \<Rightarrow> real list" where
  "hyperbox_vert lx ly lz lt i =
     (let vert = vert_digits i;
          vert = vert[0 := lx * (vert ! 0 - 0.5)];
          vert = vert[1 := ly * (vert ! 1 - 0.5)];
          vert = vert[2 := lz * (vert ! 2 - 0.5)];
          vert = vert[3 := lt * (vert ! 3 - 0.5)]
      in vert)"

function hyperboxVertexes_loop ::
  "real \<Rightarrow> real \<Rightarrow> real \<Rightarrow> real \<Rightarrow> nat \<Rightarrow> real list list \<Rightarrow> real list list" where
  "hyperboxVertexes_loop lx ly lz lt i vertexes =
     (if i < 2 ^ 4
      then hyperboxVertexes_loop lx ly lz lt (i + 1) (vertexes @ [hyperbox_vert lx ly lz lt i])
      else vertexes)"
  by pat_completeness auto
termination
  by (relation "measure (\<lambda>(lx, ly, lz, lt, i, vertexes). 2 ^ 4 - i)") auto

declare hyperboxVertexes_loop.simps [simp del]

definition hyperboxVertexes :: "real \<Rightarrow> real \<Rightarrow> real \<Rightarrow> real \<Rightarrow> real list list" where
  "hyperboxVertexes lx ly lz lt = hyperboxVertexes_loop lx ly lz lt 0 []"

text \<open>
  \<^verbatim>\<open>hyperboxEdges()\<close>: for every \<open>i\<close> the inner loop runs over the literal
  \<^verbatim>\<open>[0, 1, 2, 3]\<close> and pushes \<^verbatim>\<open>[i, i + 2 ** dir]\<close> when \<^verbatim>\<open>vert[dir] == 0\<close>.
\<close>

definition hyperboxEdges_dirs :: "nat \<Rightarrow> nat list list \<Rightarrow> nat list list" where
  "hyperboxEdges_dirs i edges =
     foldl (\<lambda>edges dir.
              if vert_digits i ! dir = 0 then edges @ [[i, i + 2 ^ dir]] else edges)
           edges [0, 1, 2, 3]"

function hyperboxEdges_loop :: "nat \<Rightarrow> nat list list \<Rightarrow> nat list list" where
  "hyperboxEdges_loop i edges =
     (if i < 2 ^ 4 then hyperboxEdges_loop (i + 1) (hyperboxEdges_dirs i edges) else edges)"
  by pat_completeness auto
termination
  by (relation "measure (\<lambda>(i, edges). 2 ^ 4 - i)") auto

declare hyperboxEdges_loop.simps [simp del]

definition hyperboxEdges :: "nat list list" where
  "hyperboxEdges = hyperboxEdges_loop 0 []"

text \<open>
  \<^verbatim>\<open>hypercubeFaces()\<close>: two nested loops over \<^verbatim>\<open>[0, 1, 2, 3]\<close>; a pair of axes with
  \<^verbatim>\<open>dir2 > dir1\<close> whose digits are both 0 pushes two triangles.
\<close>

definition hypercubeFaces_dirs :: "nat \<Rightarrow> nat list list \<Rightarrow> nat list list" where
  "hypercubeFaces_dirs i faces =
     foldl (\<lambda>faces dir1.
        foldl (\<lambda>faces dir2.
           if dir2 > dir1 \<and> vert_digits i ! dir1 = 0 \<and> vert_digits i ! dir2 = 0
           then (faces @ [[i, i + 2 ^ dir1, i + 2 ^ dir1 + 2 ^ dir2]])
                      @ [[i, i + 2 ^ dir1 + 2 ^ dir2, i + 2 ^ dir2]]
           else faces)
          faces [0, 1, 2, 3])
       faces [0, 1, 2, 3]"

function hypercubeFaces_loop :: "nat \<Rightarrow> nat list list \<Rightarrow> nat list list" where
  "hypercubeFaces_loop i faces =
     (if i < 2 ^ 4 then hypercubeFaces_loop (i + 1) (hypercubeFaces_dirs i faces) else faces)"
  by pat_completeness auto
termination
  by (relation "measure (\<lambda>(i, faces). 2 ^ 4 - i)") auto

declare hypercubeFaces_loop.simps [simp del]

definition hypercubeFaces :: "nat list list" where
  "hypercubeFaces = hypercubeFaces_loop 0 []"


section \<open>Numbers and the three.js \<open>Matrix4\<close>\<close>

text \<open>
  The entries of a \<^verbatim>\<open>Float32Array\<close> and of a \<^verbatim>\<open>Matrix4\<close> are real numbers,
  \<open>+Infinity\<close>, \<open>-Infinity\<close> or \<open>NaN\<close>, with the arithmetic of IEEE 754 on the
  infinities and on \<open>NaN\<close>. The sign of zero is not modelled. The results of the
  arithmetic on doubles are kept exact (no rounding and no overflow of doubles).
  \<open>NaN\<close> also stands for \<^verbatim>\<open>undefined\<close>, which a read beyond the end of an array
  yields: every value read that way goes through a multiplication or is stored in a
  \<^verbatim>\<open>Float32Array\<close>, and both turn \<^verbatim>\<open>undefined\<close> into \<open>NaN\<close>.
\<close>

datatype num = Num real | PosInf | NegInf | NaN

fun is_finite :: "num \<Rightarrow> bool" where
  "is_finite (Num r) = True"
| "is_finite PosInf = False"
| "is_finite NegInf = False"
| "is_finite NaN = False"

instantiation num :: "{zero, one, plus, times, uminus}"
begin

definition zero_num :: num where "zero_num = Num 0"

definition one_num :: num where "one_num = Num 1"

fun plus_num :: "num \<Rightarrow> num \<Rightarrow> num" where
  "plus_num (Num a) (Num b) = Num (a + b)"
| "plus_num NaN _ = NaN"
| "plus_num _ NaN = NaN"
| "plus_num PosInf NegInf = NaN"
| "plus_num NegInf PosInf = NaN"
| "plus_num PosInf _ = PosInf"
| "plus_num _ PosInf = PosInf"
| "plus_num NegInf _ = NegInf"
| "plus_num _ NegInf = NegInf"

fun times_num :: "num \<Rightarrow> num \<Rightarrow> num" where
  "times_num (Num a) (Num b) = Num (a * b)"
| "times_num NaN _ = NaN"
| "times_num _ NaN = NaN"
| "times_num PosInf (Num b) = (if b = 0 then NaN else if 0 < b then PosInf else NegInf)"
| "times_num NegInf (Num b) = (if b = 0 then NaN else if 0 < b then NegInf else PosInf)"
| "times_num (Num a) PosInf = (if a = 0 then NaN else if 0 < a then PosInf else NegInf)"
| "times_num (Num a) NegInf = (if a = 0 then NaN else if 0 < a then NegInf else PosInf)"
| "times_num PosInf PosInf = PosInf"
| "times_num PosInf NegInf = NegInf"
| "times_num NegInf PosInf = NegInf"
| "times_num NegInf NegInf = PosInf"

fun uminus_num :: "num \<Rightarrow> num" where
  "uminus_num (Num a) = Num (- a)"
| "uminus_num PosInf = NegInf"
| "uminus_num NegInf = PosInf"
| "uminus_num NaN = NaN"

instance ..

end

text \<open>
  Storing a number in a \<^verbatim>\<open>Float32Array\<close> rounds it to the nearest single-precision
  number, ties to the even significand. The single-precision numbers next to \<open>x\<close> are
  the multiples of \<open>2 ^ (e - 23)\<close>, where \<open>e\<close> is the binary exponent of \<open>x\<close>, at
  least \<open>-126\<close> (below that the numbers are subnormal). From \<open>2 ^ 128 - 2 ^ 103\<close> on,
  half way between the largest single-precision number and \<open>2 ^ 128\<close>, the stored value
  is an infinity. \<open>Float32\<close> is used where the constructor fills its
  \<^verbatim>\<open>Float32Array\<close>; the stores of \<^verbatim>\<open>toArray\<close> keep the exact results, like the
  arithmetic.
\<close>

definition round_half_even :: "real \<Rightarrow> int" where
  "round_half_even y =
     (let f = \<lfloor>y\<rfloor>
      in if y - of_int f < 1 / 2 then f
         else if 1 / 2 < y - of_int f then f + 1
         else if even f then f else f + 1)"

definition float32_exponent :: "real \<Rightarrow> int" where
  "float32_exponent x = max \<lfloor>log 2 \<bar>x\<bar>\<rfloor> (- 126)"

definition float32_nearest :: "real \<Rightarrow> real" where
  "float32_nearest x =
     (if x = 0 then 0
      else (let ulp = 2 powr of_int (float32_exponent x - 23)
            in of_int (round_half_even (x / ulp)) * ulp))"

definition Float32 :: "real \<Rightarrow> num" where
  "Float32 x =
     (if 2 ^ 128 - 2 ^ 103 \<le> x then PosInf
      else if x \<le> - (2 ^ 128 - 2 ^ 103) then NegInf
      else Num (float32_nearest x))"

text \<open>\<^verbatim>\<open>array[i]\<close>: a read beyond the end yields \<^verbatim>\<open>undefined\<close>.\<close>

definition js_read :: "num list \<Rightarrow> nat \<Rightarrow> num" where
  "js_read array i = (if i < length array then array ! i else NaN)"

text \<open>\<^verbatim>\<open>array[i] = v\<close> on a \<^verbatim>\<open>Float32Array\<close>: a write beyond the end is dropped.\<close>

definition typed_write :: "num list \<Rightarrow> nat \<Rightarrow> num \<Rightarrow> num list" where
  "typed_write array i v = (if i < length array then array[i := v] else array)"

text \<open>
  A \<^verbatim>\<open>THREE.Matrix4\<close> is its \<^verbatim>\<open>elements\<close> array of 16 numbers, which three.js
  reads in column-major order: the entry in row \<open>r\<close> and column \<open>c\<close> (both counted
  from 0) is \<^verbatim>\<open>elements[r + 4 * c]\<close>. The methods below follow the library:
  \<^verbatim>\<open>fromArray(array, offset)\<close> copies 16 entries in array order, \<^verbatim>\<open>toArray(array, offset)\<close>
  writes them back in the same order, \<^verbatim>\<open>multiplyMatrices(a, b)\<close> reads all 32 entries
  into locals \<^verbatim>\<open>a11 .. b44\<close> before it writes the product \<open>a \<times> b\<close>,
  \<^verbatim>\<open>m.multiply(n)\<close> is \<^verbatim>\<open>m.multiplyMatrices(m, n)\<close> and \<^verbatim>\<open>m.premultiply(n)\<close> is
  \<^verbatim>\<open>m.multiplyMatrices(n, m)\<close>.
\<close>

type_synonym Matrix4 = "num list"

definition identity :: Matrix4 where
  "identity = [1, 0, 0, 0,  0, 1, 0, 0,  0, 0, 1, 0,  0, 0, 0, 1]"

definition fromArray :: "num list \<Rightarrow> nat \<Rightarrow> Matrix4" where
  "fromArray array offset = map (\<lambda>i. js_read array (i + offset)) [0..<16]"

definition toArray :: "Matrix4 \<Rightarrow> num list \<Rightarrow> nat \<Rightarrow> num list" where
  "toArray te array offset =
     foldl (\<lambda>array k. typed_write array (offset + k) (te ! k)) array [0..<16]"

definition multiplyMatrices :: "Matrix4 \<Rightarrow> Matrix4 \<Rightarrow> Matrix4" where
  "multiplyMatrices ae be =
     (let a11 = ae ! 0; a12 = ae ! 4; a13 = ae ! 8; a14 = ae ! 12;
          a21 = ae ! 1; a22 = ae ! 5; a23 = ae ! 9; a24 = ae ! 13;
          a31 = ae ! 2; a32 = ae ! 6; a33 = ae ! 10; a34 = ae ! 14;
          a41 = ae ! 3; a42 = ae ! 7; a43 = ae ! 11; a44 = ae ! 15;
          b11 = be ! 0; b12 = be ! 4; b13 = be ! 8; b14 = be ! 12;
          b21 = be ! 1; b22 = be ! 5; b23 = be ! 9; b24 = be ! 13;
          b31 = be ! 2; b32 = be ! 6; b33 = be ! 10; b34 = be ! 14;
          b41 = be ! 3; b42 = be ! 7; b43 = be ! 11; b44 = be ! 15
      in [a11 * b11 + a12 * b21 + a13 * b31 + a14 * b41,
          a21 * b11 + a22 * b21 + a23 * b31 + a24 * b41,
          a31 * b11 + a32 * b21 + a33 * b31 + a34 * b41,
          a41 * b11 + a42 * b21 + a43 * b31 + a44 * b41,
          a11 * b12 + a12 * b22 + a13 * b32 + a14 * b42,
          a21 * b12 + a22 * b22 + a23 * b32 + a24 * b42,
          a31 * b12 + a32 * b22 + a33 * b32 + a34 * b42,
          a41 * b12 + a42 * b22 + a43 * b32 + a44 * b42,
          a11 * b13 + a12 * b23 + a13 * b33 + a14 * b43,
          a21 * b13 + a22 * b23 + a23 * b33 + a24 * b43,
          a31 * b13 + a32 * b23 + a33 * b33 + a34 * b43,
          a41 * b13 + a42 * b23 + a43 * b33 + a44 * b43,
          a11 * b14 + a12 * b24 + a13 * b34 + a14 * b44,
          a21 * b14 + a22 * b24 + a23 * b34 + a24 * b44,
          a31 * b14 + a32 * b24 + a33 * b34 + a34 * b44,
          a41 * b14 + a42 * b24 + a43 * b34 + a44 * b44])"

definition multiply :: "Matrix4 \<Rightarrow> Matrix4 \<Rightarrow> Matrix4" where
  "multiply this m = multiplyMatrices this m"

definition premultiply :: "Matrix4 \<Rightarrow> Matrix4 \<Rightarrow> Matrix4" where
  "premultiply this m = multiplyMatrices m this"

section \<open>The class \<open>Object4D\<close> (shapes.js)\<close>

text \<open>
  The fields of the class. The two children (the line segments of the edges, then the
  mesh of the faces) are kept with the index list of their geometry and the
  \<^verbatim>\<open>needsUpdate\<close> flag of their position attribute; the array of that attribute is
  the object's \<^verbatim>\<open>transformedVertexes\<close> itself (it is shared, not copied), so it is
  not stored a second time.
\<close>

record RotationState =
  xy :: real
  xz :: real
  yz :: real
  xt :: real
  yt :: real
  zt :: real

record Child =
  geometry_index :: "nat list"
  position_needsUpdate :: bool

record Object4D =
  vertexes :: "num list"
  transformedVertexes :: "num list"
  children :: "Child list"
  rot :: RotationState
  matrix4D :: Matrix4

text \<open>
  The field initialiser \<^verbatim>\<open>rot = { xy: 0, xz: 0, yz: 0, xt: 0, yt: 0, zt: 0 }\<close>
  (\<open>zero_rot\<close>) and the constructor. \<^verbatim>\<open>new Float32Array(vertexes.flat())\<close> stores the
  coordinates in order, each rounded to single precision; \<^verbatim>\<open>new Float32Array(this.vertexes)\<close>
  is a copy with a buffer of its own.
\<close>

definition zero_rot :: RotationState where
  "zero_rot = \<lparr>xy = 0, xz = 0, yz = 0, xt = 0, yt = 0, zt = 0\<rparr>"

definition Object4D_constructor ::
  "real list list \<Rightarrow> nat list list \<Rightarrow> nat list list \<Rightarrow> Object4D" where
  "Object4D_constructor vertexes_arg edges_arg faces_arg =
     (let vs = map Float32 (concat vertexes_arg);
          tvs = vs;
          edges_child = \<lparr>geometry_index = concat edges_arg, position_needsUpdate = False\<rparr>;
          mesh_child = \<lparr>geometry_index = concat faces_arg, position_needsUpdate = False\<rparr>
      in \<lparr>vertexes = vs,
          transformedVertexes = tvs,
          children = [edges_child, mesh_child],
          rot = zero_rot,
          matrix4D = fromArray [1, 0, 0, 0,  0, 1, 0, 0,  0, 0, 1, 0,  0, 0, 0, 1] 0\<rparr>)"

definition Hyperbox :: "real \<Rightarrow> real \<Rightarrow> real \<Rightarrow> real \<Rightarrow> Object4D" where
  "Hyperbox lx ly lz lt =
     Object4D_constructor (hyperboxVertexes lx ly lz lt) hyperboxEdges hypercubeFaces"

text \<open>The six matrices that \<^verbatim>\<open>updateMatrix4D\<close> builds, each from its array literal.\<close>

definition dXY :: "real \<Rightarrow> Matrix4" where
  "dXY a = fromArray
     [Num (cos a), Num (sin a), 0, 0,
      - Num (sin a), Num (cos a), 0, 0,
      0, 0, 1, 0,
      0, 0, 0, 1] 0"

definition dYZ :: "real \<Rightarrow> Matrix4" where
  "dYZ a = fromArray
     [1, 0, 0, 0,
      0, Num (cos a), Num (sin a), 0,
      0, - Num (sin a), Num (cos a), 0,
      0, 0, 0, 1] 0"

definition dXZ :: "real \<Rightarrow> Matrix4" where
  "dXZ a = fromArray
     [Num (cos a), 0, Num (sin a), 0,
      0, 1, 0, 0,
      - Num (sin a), 0, Num (cos a), 0,
      0, 0, 0, 1] 0"

definition dXT :: "real \<Rightarrow> Matrix4" where
  "dXT a = fromArray
     [Num (cos a), 0, 0, Num (sin a),
      0, 1, 0, 0,
      0, 0, 1, 0,
      - Num (sin a), 0, 0, Num (cos a)] 0"

definition dYT :: "real \<Rightarrow> Matrix4" where
  "dYT a = fromArray
     [1, 0, 0, 0,
      0, Num (cos a), 0, Num (sin a),
      0, 0, 1, 0,
      0, - Num (sin a), 0, Num (cos a)] 0"

definition dZT :: "real \<Rightarrow> Matrix4" where
  "dZT a = fromArray
     [1, 0, 0, 0,
      0, 1, 0, 0,
      0, 0, Num (cos a), Num (sin a),
      0, 0, - Num (sin a), Num (cos a)] 0"

definition updateMatrix4D :: "Object4D \<Rightarrow> Object4D" where
  "updateMatrix4D this =
     (let m = identity;
          m = multiply m (dXT (xt (rot this)));
          m = multiply m (dYT (yt (rot this)));
          m = multiply m (dZT (zt (rot this)));
          m = multiply m (dXY (xy (rot this)));
          m = multiply m (dYZ (yz (rot this)));
          m = multiply m (dXZ (xz (rot this)))
      in this\<lparr>matrix4D := m\<rparr>)"

text \<open>
  \<^verbatim>\<open>updateVertexes\<close>: the loop \<^verbatim>\<open>for (let i = 0; i < originalVertexes.length; i += 4 * 4)\<close>.
  The one \<^verbatim>\<open>vectors4\<close> matrix is reused, and \<^verbatim>\<open>fromArray\<close> overwrites all its
  entries at the start of every iteration.
\<close>

function updateVertexes_loop :: "num list \<Rightarrow> Matrix4 \<Rightarrow> nat \<Rightarrow> num list \<Rightarrow> num list" where
  "updateVertexes_loop originalVertexes m i transformed =
     (if i < length originalVertexes
      then (let vectors4 = fromArray originalVertexes i;
                vectors4 = premultiply vectors4 m;
                transformed = toArray vectors4 transformed i
            in updateVertexes_loop originalVertexes m (i + 4 * 4) transformed)
      else transformed)"
  by pat_completeness auto
termination
  by (relation "measure (\<lambda>(originalVertexes, m, i, transformed).
                            length originalVertexes - i)") auto

declare updateVertexes_loop.simps [simp del]

definition updateVertexes :: "Object4D \<Rightarrow> Object4D" where
  "updateVertexes this =
     this\<lparr>transformedVertexes :=
             updateVertexes_loop (vertexes this) (matrix4D this) 0 (transformedVertexes this),
          children := map (\<lambda>child. child\<lparr>position_needsUpdate := True\<rparr>) (children this)\<rparr>"

text \<open>
  What the callers do between the two updates: the sliders of main.js assign a value to
  one field of \<^verbatim>\<open>shape.rot\<close>, then call \<^verbatim>\<open>updateMatrix4D\<close> and \<^verbatim>\<open>updateVertexes\<close>.
\<close>

datatype plane = XY | XZ | YZ | XT | YT | ZT

fun get_rot :: "plane \<Rightarrow> RotationState \<Rightarrow> real" where
  "get_rot XY r = xy r"
| "get_rot XZ r = xz r"
| "get_rot YZ r = yz r"
| "get_rot XT r = xt r"
| "get_rot YT r = yt r"
| "get_rot ZT r = zt r"

fun set_rot :: "plane \<Rightarrow> real \<Rightarrow> Object4D \<Rightarrow> Object4D" where
  "set_rot XY v this = this\<lparr>rot := (rot this)\<lparr>xy := v\<rparr>\<rparr>"
| "set_rot XZ v this = this\<lparr>rot := (rot this)\<lparr>xz := v\<rparr>\<rparr>"
| "set_rot YZ v this = this\<lparr>rot := (rot this)\<lparr>yz := v\<rparr>\<rparr>"
| "set_rot XT v this = this\<lparr>rot := (rot this)\<lparr>xt := v\<rparr>\<rparr>"
| "set_rot YT v this = this\<lparr>rot := (rot this)\<lparr>yt := v\<rparr>\<rparr>"
| "set_rot ZT v this = this\<lparr>rot := (rot this)\<lparr>zt := v\<rparr>\<rparr>"

text \<open>
  The class has no method that turns a plane by an amount: a caller that turns the
  plane \<open>p\<close> by \<open>\<delta>\<close> assigns the angle of \<open>p\<close> plus \<open>\<delta>\<close>.
\<close>

definition rotate_by :: "plane \<Rightarrow> real \<Rightarrow> Object4D \<Rightarrow> Object4D" where
  "rotate_by p \<delta> this = set_rot p (get_rot p (rot this) + \<delta>) this"

text \<open>The matrix that \<^verbatim>\<open>updateMatrix4D\<close> builds for one plane.\<close>

fun d_plane :: "plane \<Rightarrow> real \<Rightarrow> Matrix4" where
  "d_plane XY a = dXY a"
| "d_plane XZ a = dXZ a"
| "d_plane YZ a = dYZ a"
| "d_plane XT a = dXT a"
| "d_plane YT a = dYT a"
| "d_plane ZT a = dZT a"

datatype call = SetRot plane real | UpdateMatrix4D | UpdateVertexes

fun do_call :: "call \<Rightarrow> Object4D \<Rightarrow> Object4D" where
  "do_call (SetRot p v) this = set_rot p v this"
| "do_call UpdateMatrix4D this = updateMatrix4D this"
| "do_call UpdateVertexes this = updateVertexes this"

fun do_calls :: "call list \<Rightarrow> Object4D \<Rightarrow> Object4D" where
  "do_calls [] this = this"
| "do_calls (c # cs) this = do_calls cs (do_call c this)"

text \<open>
  The buffers of an object that the constructor builds from vertices of four coordinates
  have the same length, a multiple of 4; when no coordinate is beyond the range of
  single precision, every entry of the original buffer is a finite number.
\<close>

definition buffers_ok :: "Object4D \<Rightarrow> bool" where
  "buffers_ok this \<longleftrightarrow>
     length (transformedVertexes this) = length (vertexes this)
     \<and> length (vertexes this) mod 4 = 0
     \<and> list_all is_finite (vertexes this)"


text \<open>
  An object with one vertex whose first coordinate, \<open>10 ^ 39\<close>, is beyond the range
  of single precision.
\<close>

definition overflow_object :: Object4D where
  "overflow_object = Object4D_constructor [[10 ^ 39, 1, 1, 1]] [] []"

section \<open>The specification's matrices\<close>

text \<open>
  The definitions of this section follow the words of the specification, to be compared
  with the code above. \<open>entry m r c\<close> is the entry of a \<open>Matrix4\<close> in row \<open>r\<close> and
  column \<open>c\<close> as three.js reads its \<open>elements\<close>, and \<open>mat_mul\<close> is the product of two
  4\<times>4 matrices: the entry of the product in row \<open>r\<close> and column \<open>c\<close> is the sum of
  the products of row \<open>r\<close> of the left factor with column \<open>c\<close> of the right factor.
\<close>

definition entry :: "Matrix4 \<Rightarrow> nat \<Rightarrow> nat \<Rightarrow> num" where
  "entry m r c = m ! (r + 4 * c)"

definition mat_mul :: "Matrix4 \<Rightarrow> Matrix4 \<Rightarrow> Matrix4" where
  "mat_mul A B =
     map (\<lambda>i. let r = i mod 4; c = i div 4
               in entry A r 0 * entry B 0 c + entry A r 1 * entry B 1 c
                  + entry A r 2 * entry B 2 c + entry A r 3 * entry B 3 c)
         [0..<16]"

text \<open>
  The elementary rotation of the plane of the axes \<open>a < b\<close>: the sixteen coefficients of
  the identity with the block \<open>cos \<theta>, sin \<theta>, - sin \<theta>, cos \<theta>\<close> substituted, in the order
  of the coefficient array, at the places \<open>(a, a)\<close>, \<open>(a, b)\<close>, \<open>(b, a)\<close>, \<open>(b, b)\<close>
  of its four groups of four. (three.js reads each group of four as a column, so the
  entry of the matrix in row \<open>a\<close> and column \<open>b\<close> is \<open>- sin \<theta>\<close>.)
\<close>

definition plane_rotation :: "nat \<Rightarrow> nat \<Rightarrow> real \<Rightarrow> Matrix4" where
  "plane_rotation a b \<theta> =
     identity[4 * a + a := Num (cos \<theta>), 4 * a + b := Num (sin \<theta>),
              4 * b + a := Num (- sin \<theta>), 4 * b + b := Num (cos \<theta>)]"





section \<open>The generators as lists\<close>

lemma upt16: "[0..<16] = [0, 1, 2, 3, 4, 5, 6, 7, 8, 9, 10, 11, 12, 13, 14, 15 :: nat]"
  by (simp add: upt_conv_Cons)

lemma lt16_cases:
  "i < 16 \<Longrightarrow> i \<in> set [0, 1, 2, 3, 4, 5, 6, 7, 8, 9, 10, 11, 12, 13, 14, 15 :: nat]"
  using upt16 by (metis atLeastLessThan_iff set_upt zero_le)

lemma lt4_cases: "k < 4 \<Longrightarrow> k = 0 \<or> k = 1 \<or> k = 2 \<or> k = (3::nat)"
  by arith

text \<open>The digit of axis \<open>k\<close> is bit \<open>k\<close> of the index.\<close>

lemma vert_digits_bit:
  assumes "i < 16" "k < 4"
  shows "vert_digits i ! k = (if bit i k then 1 else 0)"
  using lt16_cases [OF assms(1)] lt4_cases [OF assms(2)]
  by (auto simp add: vert_digits_def bit_iff_odd)

lemma hyperbox_vert_eq:
  "hyperbox_vert lx ly lz lt i =
     [lx * (vert_digits i ! 0 - 0.5), ly * (vert_digits i ! 1 - 0.5),
      lz * (vert_digits i ! 2 - 0.5), lt * (vert_digits i ! 3 - 0.5)]"
  by (simp add: hyperbox_vert_def vert_digits_def Let_def)

lemma hyperboxVertexes_loop_eq:
  "hyperboxVertexes_loop lx ly lz lt i acc = acc @ map (hyperbox_vert lx ly lz lt) [i..<16]"
proof (induction lx ly lz lt i acc rule: hyperboxVertexes_loop.induct)
  case (1 lx ly lz lt i acc)
  show ?case
  proof (cases "i < 16")
    case True
    then have "[i..<16] = i # [i + 1..<16]" by (simp add: upt_conv_Cons)
    with True 1 show ?thesis
      by (subst hyperboxVertexes_loop.simps) simp
  next
    case False
    then show ?thesis by (subst hyperboxVertexes_loop.simps) simp
  qed
qed

lemma hyperboxVertexes_map:
  "hyperboxVertexes lx ly lz lt = map (hyperbox_vert lx ly lz lt) [0..<16]"
  by (simp add: hyperboxVertexes_def hyperboxVertexes_loop_eq)

lemma length_hyperboxVertexes: "length (hyperboxVertexes lx ly lz lt) = 16"
  by (simp add: hyperboxVertexes_map)

lemma nth_hyperboxVertexes:
  "i < 16 \<Longrightarrow> hyperboxVertexes lx ly lz lt ! i = hyperbox_vert lx ly lz lt i"
  by (simp add: hyperboxVertexes_map)

lemma hyperboxEdges_dirs_append: "hyperboxEdges_dirs i acc = acc @ hyperboxEdges_dirs i []"
  by (simp add: hyperboxEdges_dirs_def)

lemma hyperboxEdges_loop_eq:
  "hyperboxEdges_loop i acc = acc @ concat (map (\<lambda>j. hyperboxEdges_dirs j []) [i..<16])"
proof (induction i acc rule: hyperboxEdges_loop.induct)
  case (1 i acc)
  show ?case
  proof (cases "i < 16")
    case True
    then have up: "[i..<16] = i # [i + 1..<16]" by (simp add: upt_conv_Cons)
    have "hyperboxEdges_loop i acc = hyperboxEdges_loop (i + 1) (hyperboxEdges_dirs i acc)"
      using True by (subst hyperboxEdges_loop.simps) simp
    also have "\<dots> = hyperboxEdges_dirs i acc
                        @ concat (map (\<lambda>j. hyperboxEdges_dirs j []) [i + 1..<16])"
      using 1 True by simp
    also have "\<dots> = acc @ concat (map (\<lambda>j. hyperboxEdges_dirs j []) [i..<16])"
      using hyperboxEdges_dirs_append [of i acc] up by simp
    finally show ?thesis .
  next
    case False
    then show ?thesis by (subst hyperboxEdges_loop.simps) simp
  qed
qed

lemma hyperboxEdges_value:
  "hyperboxEdges =
     [[0, 1], [0, 2], [0, 4], [0, 8], [1, 3], [1, 5], [1, 9], [2, 3],
      [2, 6], [2, 10], [3, 7], [3, 11], [4, 5], [4, 6], [4, 12], [5, 7],
      [5, 13], [6, 7], [6, 14], [7, 15], [8, 9], [8, 10], [8, 12], [9, 11],
      [9, 13], [10, 11], [10, 14], [11, 15], [12, 13], [12, 14], [13, 15], [14, 15]]"
  by (simp add: hyperboxEdges_def hyperboxEdges_loop_eq upt16 hyperboxEdges_dirs_def
      vert_digits_def)

lemma hypercubeFaces_dirs_append: "hypercubeFaces_dirs i acc = acc @ hypercubeFaces_dirs i []"
  by (simp add: hypercubeFaces_dirs_def)

lemma hypercubeFaces_loop_eq:
  "hypercubeFaces_loop i acc = acc @ concat (map (\<lambda>j. hypercubeFaces_dirs j []) [i..<16])"
proof (induction i acc rule: hypercubeFaces_loop.induct)
  case (1 i acc)
  show ?case
  proof (cases "i < 16")
    case True
    then have up: "[i..<16] = i # [i + 1..<16]" by (simp add: upt_conv_Cons)
    have "hypercubeFaces_loop i acc = hypercubeFaces_loop (i + 1) (hypercubeFaces_dirs i acc)"
      using True by (subst hypercubeFaces_loop.simps) simp
    also have "\<dots> = hypercubeFaces_dirs i acc
                        @ concat (map (\<lambda>j. hypercubeFaces_dirs j []) [i + 1..<16])"
      using 1 True by simp
    also have "\<dots> = acc @ concat (map (\<lambda>j. hypercubeFaces_dirs j []) [i..<16])"
      using hypercubeFaces_dirs_append [of i acc] up by simp
    finally show ?thesis .
  next
    case False
    then show ?thesis by (subst hypercubeFaces_loop.simps) simp
  qed
qed

lemma hypercubeFaces_value:
  "hypercubeFaces =
     [[0, 1, 3], [0, 3, 2], [0, 1, 5], [0, 5, 4], [0, 1, 9], [0, 9, 8],
      [0, 2, 6], [0, 6, 4], [0, 2, 10], [0, 10, 8], [0, 4, 12], [0, 12, 8],
      [1, 3, 7], [1, 7, 5], [1, 3, 11], [1, 11, 9], [1, 5, 13], [1, 13, 9],
      [2, 3, 7], [2, 7, 6], [2, 3, 11], [2, 11, 10], [2, 6, 14], [2, 14, 10],
      [3, 7, 15], [3, 15, 11], [4, 5, 7], [4, 7, 6], [4, 5, 13], [4, 13, 12],
      [4, 6, 14], [4, 14, 12], [5, 7, 15], [5, 15, 13], [6, 7, 15], [6, 15, 14],
      [8, 9, 11], [8, 11, 10], [8, 9, 13], [8, 13, 12], [8, 10, 14], [8, 14, 12],
      [9, 11, 15], [9, 15, 13], [10, 11, 15], [10, 15, 14], [12, 13, 15], [12, 15, 14]]"
  by (simp add: hypercubeFaces_def hypercubeFaces_loop_eq upt16 hypercubeFaces_dirs_def
      vert_digits_def)

text \<open>Adding \<open>2 ^ dir\<close> to an index whose bit \<open>dir\<close> is 0 sets that bit and no other.\<close>

lemma bit_add_power:
  fixes i :: nat
  assumes "\<not> bit i dir"
  shows "bit (i + 2 ^ dir) n \<longleftrightarrow> bit i n \<or> n = dir"
proof -
  have "i + 2 ^ dir = set_bit dir i" using assms by (simp add: set_bit_eq)
  then show ?thesis by (auto simp add: bit_set_bit_iff)
qed

section \<open>Claims about the generators\<close>

text \<open>
  C4. For all edge lengths and every index \<open>i\<close> below 16, vertex \<open>i\<close> of
  \<open>hyperboxVertexes\<close> has on axis \<open>k\<close> the coordinate minus half the length of that
  axis when bit \<open>k\<close> of \<open>i\<close> is 0 and plus half the length when it is 1 (bit 0 is x,
  bit 1 is y, bit 2 is z, bit 3 is t). With the lengths 2, 4, 6, 8 vertex 0 is
  \<open>(-1, -2, -3, -4)\<close> and vertex 15 is \<open>(1, 2, 3, 4)\<close>.
\<close>

theorem hyperboxVertexes_bit_coordinates:
  assumes "i < 16" and "k < 4"
  shows "length (hyperboxVertexes lx ly lz lt) = 16
       \<and> length (hyperboxVertexes lx ly lz lt ! i) = 4
       \<and> hyperboxVertexes lx ly lz lt ! i ! k =
            (if bit i k then [lx, ly, lz, lt] ! k / 2 else - ([lx, ly, lz, lt] ! k) / 2)
       \<and> hyperboxVertexes 2 4 6 8 ! 0 = [-1, -2, -3, -4]
       \<and> hyperboxVertexes 2 4 6 8 ! 15 = [1, 2, 3, 4]"
proof -
  have digit: "vert_digits i ! n = (if bit i n then 1 else 0)" if "n < 4" for n
    using vert_digits_bit [OF assms(1) that] .
  have coord: "hyperboxVertexes lx ly lz lt ! i ! k =
            (if bit i k then [lx, ly, lz, lt] ! k / 2 else - ([lx, ly, lz, lt] ! k) / 2)"
    using lt4_cases [OF assms(2)] digit [of 0] digit [of 1] digit [of 2] digit [of 3]
    by (auto simp add: nth_hyperboxVertexes [OF assms(1)] hyperbox_vert_eq)
  have first: "hyperboxVertexes 2 4 6 8 ! 0 = [-1, -2, -3, -4]"
    by (simp add: nth_hyperboxVertexes hyperbox_vert_eq vert_digits_def)
  have last: "hyperboxVertexes 2 4 6 8 ! 15 = [1, 2, 3, 4]"
    by (simp add: nth_hyperboxVertexes hyperbox_vert_eq vert_digits_def)
  show ?thesis
    using coord first last assms(1)
    by (simp add: length_hyperboxVertexes nth_hyperboxVertexes hyperbox_vert_eq)
qed

theorem hyperboxVertexes_bit_coordinates_witness:
  "(5::nat) < 16 \<and> (2::nat) < 4 \<and> bit (5::nat) (2::nat)
     \<and> hyperboxVertexes 2 4 6 8 ! 5 ! 2 = 3
     \<and> hyperboxVertexes 2 4 6 8 ! 5 ! 1 = - 2"
proof -
  have b2: "bit (5::nat) (2::nat)" and b1: "\<not> bit (5::nat) (1::nat)"
    by (simp_all add: bit_iff_odd)
  show ?thesis
    using hyperboxVertexes_bit_coordinates [of 5 2 2 4 6 8]
      hyperboxVertexes_bit_coordinates [of 5 1 2 4 6 8] b1 b2
    by simp
qed

text \<open>The edges that one index contributes, and all the edges.\<close>

lemma hyperboxEdges_dirs_set:
  assumes "i < 16"
  shows "set (hyperboxEdges_dirs i []) = {[i, i + 2 ^ dir] | dir. dir < 4 \<and> \<not> bit i dir}"
proof -
  have four: "set [0, 1, 2, 3 :: nat] = {dir. dir < 4}" by auto
  have "hyperboxEdges_dirs i [] =
      map (\<lambda>dir. [i, i + 2 ^ dir]) (filter (\<lambda>dir. vert_digits i ! dir = 0) [0, 1, 2, 3])"
    by (simp add: hyperboxEdges_dirs_def)
  then have "set (hyperboxEdges_dirs i []) =
      (\<lambda>dir. [i, i + 2 ^ dir]) ` {dir \<in> set [0, 1, 2, 3]. vert_digits i ! dir = 0}"
    by (simp only: set_map set_filter)
  also have "{dir \<in> set [0, 1, 2, 3]. vert_digits i ! dir = 0} = {dir. dir < 4 \<and> \<not> bit i dir}"
    unfolding four using vert_digits_bit [OF assms] by auto
  finally show ?thesis by blast
qed

lemma hyperboxEdges_set:
  "set hyperboxEdges = {[i, i + 2 ^ dir] | i dir. i < 16 \<and> dir < 4 \<and> \<not> bit i dir}"
proof -
  have "set hyperboxEdges = (\<Union>i \<in> {0..<16}. set (hyperboxEdges_dirs i []))"
    by (simp add: hyperboxEdges_def hyperboxEdges_loop_eq)
  also have "\<dots> = (\<Union>i \<in> {0..<16}. {[i, i + 2 ^ dir] | dir. dir < 4 \<and> \<not> bit i dir})"
    using hyperboxEdges_dirs_set by simp
  also have "\<dots> = {[i, i + 2 ^ dir] | i dir. i < 16 \<and> dir < 4 \<and> \<not> bit i dir}"
    by auto
  finally show ?thesis .
qed

text \<open>
  C5. The edge list of \<open>hyperboxEdges\<close> holds the edge \<open>(i, i + 2 ^ dir)\<close> for exactly
  the pairs of an index \<open>i\<close> below 16 and an axis \<open>dir\<close> below 4 with bit \<open>dir\<close> of
  \<open>i\<close> equal to 0, each of them once; so the two indices of every edge differ in
  exactly one bit.
\<close>

theorem hyperboxEdges_exactly:
  "set hyperboxEdges = {[i, i + 2 ^ dir] | i dir. i < 16 \<and> dir < 4 \<and> \<not> bit i dir}
     \<and> distinct hyperboxEdges
     \<and> (\<forall>e \<in> set hyperboxEdges. \<exists>a b. e = [a, b] \<and> (\<exists>!n. bit a n \<noteq> bit b n))"
proof (intro conjI ballI)
  show "set hyperboxEdges = {[i, i + 2 ^ dir] | i dir. i < 16 \<and> dir < 4 \<and> \<not> bit i dir}"
    by (fact hyperboxEdges_set)
  show "distinct hyperboxEdges"
    by (simp add: hyperboxEdges_value)
  show "\<exists>a b. e = [a, b] \<and> (\<exists>!n. bit a n \<noteq> bit b n)" if "e \<in> set hyperboxEdges" for e
  proof -
    from that have "e \<in> {[i, i + 2 ^ dir] | i dir. i < 16 \<and> dir < 4 \<and> \<not> bit i dir}"
      unfolding hyperboxEdges_set .
    then obtain i dir where e: "e = [i, i + 2 ^ dir]" and zero: "\<not> bit i dir"
      by blast
    have "(bit i n \<noteq> bit (i + 2 ^ dir) n) \<longleftrightarrow> n = dir" for n
      using bit_add_power [OF zero, of n] zero by auto
    then have "\<exists>!n. bit i n \<noteq> bit (i + 2 ^ dir) n" by auto
    with e show ?thesis by blast
  qed
qed

theorem hyperboxEdges_exactly_witness:
  "[5, 7] \<in> set hyperboxEdges \<and> (\<exists>!n. bit (5::nat) n \<noteq> bit (7::nat) n)"
proof -
  have mem: "[5, 7] \<in> set hyperboxEdges" by (simp add: hyperboxEdges_value)
  have "\<exists>a b. [5, 7 :: nat] = [a, b] \<and> (\<exists>!n. bit a n \<noteq> bit b n)"
    by (rule hyperboxEdges_exactly [THEN conjunct2, THEN conjunct2, rule_format, OF mem])
  then have "\<exists>!n. bit (5::nat) n \<noteq> bit (7::nat) n" by simp
  with mem show ?thesis by simp
qed

text \<open>
  C6. With all four edge lengths equal to 1 the generators give exactly 16 vertices,
  32 edges and 48 triangular faces, and every coordinate of every vertex is
  \<open>1/2\<close> or \<open>-1/2\<close>. The vertices have four coordinates, the edges two indices,
  the faces three, and no vertex, edge or face occurs twice.
\<close>

theorem unit_hypercube_counts:
  "length (hyperboxVertexes 1 1 1 1) = 16
     \<and> distinct (hyperboxVertexes 1 1 1 1)
     \<and> length hyperboxEdges = 32
     \<and> distinct hyperboxEdges
     \<and> (\<forall>e \<in> set hyperboxEdges. length e = 2)
     \<and> length hypercubeFaces = 48
     \<and> distinct hypercubeFaces
     \<and> (\<forall>f \<in> set hypercubeFaces. length f = 3)
     \<and> (\<forall>v \<in> set (hyperboxVertexes 1 1 1 1). length v = 4 \<and> (\<forall>x \<in> set v. x = 1 / 2 \<or> x = - 1 / 2))"
proof (intro conjI)
  show "length (hyperboxVertexes 1 1 1 1) = 16"
    by (rule length_hyperboxVertexes)
  show "distinct (hyperboxVertexes 1 1 1 1)"
    by (simp add: hyperboxVertexes_map upt16 hyperbox_vert_eq vert_digits_def)
  show "length hyperboxEdges = 32"
    by (simp add: hyperboxEdges_value)
  show "distinct hyperboxEdges"
    by (simp add: hyperboxEdges_value)
  show "\<forall>e \<in> set hyperboxEdges. length e = 2"
    by (simp add: hyperboxEdges_value)
  show "length hypercubeFaces = 48"
    by (simp add: hypercubeFaces_value)
  show "distinct hypercubeFaces"
    by (simp add: hypercubeFaces_value)
  show "\<forall>f \<in> set hypercubeFaces. length f = 3"
    by (simp add: hypercubeFaces_value)
  show "\<forall>v \<in> set (hyperboxVertexes 1 1 1 1).
          length v = 4 \<and> (\<forall>x \<in> set v. x = 1 / 2 \<or> x = - 1 / 2)"
  proof
    fix v
    assume "v \<in> set (hyperboxVertexes 1 1 1 1)"
    then obtain i where i: "i < 16" and v: "v = hyperbox_vert 1 1 1 1 i"
      by (auto simp add: hyperboxVertexes_map)
    show "length v = 4 \<and> (\<forall>x \<in> set v. x = 1 / 2 \<or> x = - 1 / 2)"
      using vert_digits_bit [OF i, of 0] vert_digits_bit [OF i, of 1]
        vert_digits_bit [OF i, of 2] vert_digits_bit [OF i, of 3]
      by (simp add: v hyperbox_vert_eq)
  qed
qed

theorem unit_hypercube_counts_witness:
  "hyperboxVertexes 1 1 1 1 ! 6 = [- 1 / 2, 1 / 2, 1 / 2, - 1 / 2]
     \<and> hyperboxVertexes 1 1 1 1 ! 6 \<in> set (hyperboxVertexes 1 1 1 1)
     \<and> length (hyperboxVertexes 1 1 1 1 ! 6) = 4
     \<and> [0, 1] \<in> set hyperboxEdges
     \<and> [0, 1, 3] \<in> set hypercubeFaces"
proof -
  have v: "hyperboxVertexes 1 1 1 1 ! 6 = [- 1 / 2, 1 / 2, 1 / 2, - 1 / 2]"
    by (simp add: nth_hyperboxVertexes hyperbox_vert_eq vert_digits_def)
  have mem: "hyperboxVertexes 1 1 1 1 ! 6 \<in> set (hyperboxVertexes 1 1 1 1)"
    by (rule nth_mem) (simp add: length_hyperboxVertexes)
  have e: "[0, 1] \<in> set hyperboxEdges" by (simp add: hyperboxEdges_value)
  have f: "[0, 1, 3] \<in> set hypercubeFaces" by (simp add: hypercubeFaces_value)
  have "\<forall>v \<in> set (hyperboxVertexes 1 1 1 1).
          length v = 4 \<and> (\<forall>x \<in> set v. x = 1 / 2 \<or> x = - 1 / 2)"
    using unit_hypercube_counts by (elim conjE)
  with mem have "length (hyperboxVertexes 1 1 1 1 ! 6) = 4" by blast
  with v mem e f show ?thesis by simp
qed

text \<open>
  C7. Every vertex index in an edge of \<open>hyperboxEdges\<close> and in a triangle of
  \<open>hypercubeFaces\<close> is a valid vertex index: it is below 16, the number of vertices
  that \<open>hyperboxVertexes\<close> returns.
\<close>

theorem indices_valid:
  "(\<forall>e \<in> set hyperboxEdges. \<forall>v \<in> set e. v < length (hyperboxVertexes lx ly lz lt))
     \<and> (\<forall>f \<in> set hypercubeFaces. \<forall>v \<in> set f. v < length (hyperboxVertexes lx ly lz lt))
     \<and> length (hyperboxVertexes lx ly lz lt) = 16"
proof -
  have "\<forall>e \<in> set hyperboxEdges. \<forall>v \<in> set e. v < 16"
    by (simp add: hyperboxEdges_value)
  moreover have "\<forall>f \<in> set hypercubeFaces. \<forall>v \<in> set f. v < 16"
    by (simp add: hypercubeFaces_value)
  ultimately show ?thesis by (simp add: length_hyperboxVertexes)
qed

theorem indices_valid_witness:
  "[7, 15] \<in> set hyperboxEdges \<and> [12, 15, 14] \<in> set hypercubeFaces
     \<and> (15::nat) \<in> set [7, 15] \<and> (15::nat) \<in> set [12, 15, 14]
     \<and> (15::nat) < length (hyperboxVertexes 1 1 1 1)"
proof -
  have e: "[7, 15] \<in> set hyperboxEdges" by (simp add: hyperboxEdges_value)
  have f: "[12, 15, 14] \<in> set hypercubeFaces" by (simp add: hypercubeFaces_value)
  have "(15::nat) \<in> set [7, 15]" by simp
  with e indices_valid [of 1 1 1 1]
  have "(15::nat) < length (hyperboxVertexes 1 1 1 1)" by blast
  with e f show ?thesis by simp
qed


section \<open>Arithmetic of the numbers and of \<open>Matrix4\<close>\<close>

lemma num_arith: "(0::num) = Num 0" "(1::num) = Num 1"
  by (simp_all add: zero_num_def one_num_def)

lemma multiplyMatrices_literal:
  "multiplyMatrices [a0, a1, a2, a3, a4, a5, a6, a7, a8, a9, a10, a11, a12, a13, a14, a15]
                    [b0, b1, b2, b3, b4, b5, b6, b7, b8, b9, b10, b11, b12, b13, b14, b15] =
     [a0 * b0 + a4 * b1 + a8 * b2 + a12 * b3,
      a1 * b0 + a5 * b1 + a9 * b2 + a13 * b3,
      a2 * b0 + a6 * b1 + a10 * b2 + a14 * b3,
      a3 * b0 + a7 * b1 + a11 * b2 + a15 * b3,
      a0 * b4 + a4 * b5 + a8 * b6 + a12 * b7,
      a1 * b4 + a5 * b5 + a9 * b6 + a13 * b7,
      a2 * b4 + a6 * b5 + a10 * b6 + a14 * b7,
      a3 * b4 + a7 * b5 + a11 * b6 + a15 * b7,
      a0 * b8 + a4 * b9 + a8 * b10 + a12 * b11,
      a1 * b8 + a5 * b9 + a9 * b10 + a13 * b11,
      a2 * b8 + a6 * b9 + a10 * b10 + a14 * b11,
      a3 * b8 + a7 * b9 + a11 * b10 + a15 * b11,
      a0 * b12 + a4 * b13 + a8 * b14 + a12 * b15,
      a1 * b12 + a5 * b13 + a9 * b14 + a13 * b15,
      a2 * b12 + a6 * b13 + a10 * b14 + a14 * b15,
      a3 * b12 + a7 * b13 + a11 * b14 + a15 * b15]"
  by (simp add: multiplyMatrices_def Let_def)

lemma length_multiplyMatrices [simp]: "length (multiplyMatrices A B) = 16"
  by (simp add: multiplyMatrices_def Let_def)

lemma length_mat_mul [simp]: "length (mat_mul A B) = 16"
  by (simp add: mat_mul_def)

text \<open>The product that three.js computes is the matrix product.\<close>

lemma multiplyMatrices_mat_mul: "multiplyMatrices A B = mat_mul A B"
proof -
  have two: "Suc (Suc 0) = 2" by simp
  show ?thesis
    by (simp add: multiplyMatrices_def mat_mul_def entry_def upt16 Let_def two)
qed

lemma fromArray_literal:
  "fromArray [e0, e1, e2, e3, e4, e5, e6, e7, e8, e9, e10, e11, e12, e13, e14, e15] 0 =
     [e0, e1, e2, e3, e4, e5, e6, e7, e8, e9, e10, e11, e12, e13, e14, e15]"
  by (simp add: fromArray_def js_read_def upt16)

lemma nth_fromArray: "k < 16 \<Longrightarrow> fromArray ov off ! k = js_read ov (k + off)"
  by (simp add: fromArray_def)


lemmas d_defs = dXY_def dYZ_def dXZ_def dXT_def dYT_def dZT_def

lemma d_plane_rotation:
  "dXY a = plane_rotation 0 1 a" "dYZ a = plane_rotation 1 2 a" "dXZ a = plane_rotation 0 2 a"
  "dXT a = plane_rotation 0 3 a" "dYT a = plane_rotation 1 3 a" "dZT a = plane_rotation 2 3 a"
  by (simp_all add: d_defs fromArray_literal plane_rotation_def identity_def num_arith)

text \<open>
  As three.js reads the coefficients, the matrix of the xy plane has \<open>- sin a\<close> in
  row 0, column 1 and \<open>sin a\<close> in row 1, column 0: it turns the x axis towards the y
  axis. The other five matrices are built alike.
\<close>

lemma dXY_entries:
  "entry (dXY a) 0 0 = Num (cos a) \<and> entry (dXY a) 0 1 = Num (- sin a)
     \<and> entry (dXY a) 1 0 = Num (sin a) \<and> entry (dXY a) 1 1 = Num (cos a)"
  by (simp add: dXY_def fromArray_literal entry_def)

lemma d_zero:
  "dXY 0 = identity" "dYZ 0 = identity" "dXZ 0 = identity"
  "dXT 0 = identity" "dYT 0 = identity" "dZT 0 = identity"
  by (simp_all add: d_defs fromArray_literal identity_def num_arith)

lemma multiplyMatrices_identity_identity: "multiplyMatrices identity identity = identity"
  by (simp add: multiplyMatrices_literal identity_def num_arith)

lemma multiplyMatrices_identity_d:
  "multiplyMatrices identity (dXY a) = dXY a"
  "multiplyMatrices identity (dYZ a) = dYZ a"
  "multiplyMatrices identity (dXZ a) = dXZ a"
  "multiplyMatrices identity (dXT a) = dXT a"
  "multiplyMatrices identity (dYT a) = dYT a"
  "multiplyMatrices identity (dZT a) = dZT a"
  by (simp_all add: d_defs fromArray_literal multiplyMatrices_literal identity_def num_arith)

lemma multiplyMatrices_d_identity:
  "multiplyMatrices (dXY a) identity = dXY a"
  "multiplyMatrices (dYZ a) identity = dYZ a"
  "multiplyMatrices (dXZ a) identity = dXZ a"
  "multiplyMatrices (dXT a) identity = dXT a"
  "multiplyMatrices (dYT a) identity = dYT a"
  "multiplyMatrices (dZT a) identity = dZT a"
  by (simp_all add: d_defs fromArray_literal multiplyMatrices_literal identity_def num_arith)

lemma cos_sin_squares:
  "cos a * cos a + sin a * sin a = (1::real)" "sin a * sin a + cos a * cos a = (1::real)"
  using sin_cos_squared_add3 [of a] by (simp_all add: add.commute)

lemma multiplyMatrices_d_inverse:
  "multiplyMatrices (dXY a) (dXY (- a)) = identity"
  "multiplyMatrices (dYZ a) (dYZ (- a)) = identity"
  "multiplyMatrices (dXZ a) (dXZ (- a)) = identity"
  "multiplyMatrices (dXT a) (dXT (- a)) = identity"
  "multiplyMatrices (dYT a) (dYT (- a)) = identity"
  "multiplyMatrices (dZT a) (dZT (- a)) = identity"
  by (simp_all add: d_defs fromArray_literal multiplyMatrices_literal identity_def num_arith
      cos_sin_squares)

lemma multiplyMatrices_identity_entry:
  assumes "r < 4" "c < 4"
    and "V ! (4 * c) = Num x0" "V ! (4 * c + 1) = Num x1"
        "V ! (4 * c + 2) = Num x2" "V ! (4 * c + 3) = Num x3"
  shows "multiplyMatrices identity V ! (r + 4 * c) = V ! (r + 4 * c)"
proof -
  have two: "Suc (Suc 0) = 2" by simp
  show ?thesis
    using lt4_cases [OF assms(1)] lt4_cases [OF assms(2)] assms(3-)
    by (elim disjE) (simp_all add: multiplyMatrices_def Let_def identity_def num_arith two)
qed

text \<open>What \<open>updateMatrix4D\<close> stores when all angles are 0, or all but one.\<close>

lemma updateMatrix4D_zero:
  "rot this = zero_rot \<Longrightarrow> matrix4D (updateMatrix4D this) = identity"
  by (simp add: updateMatrix4D_def multiply_def d_zero multiplyMatrices_identity_identity
      Let_def zero_rot_def)

lemma updateMatrix4D_single:
  "rot this = zero_rot \<Longrightarrow> matrix4D (updateMatrix4D (set_rot p a this)) = d_plane p a"
  by (cases p)
     (simp_all add: updateMatrix4D_def multiply_def d_zero multiplyMatrices_identity_identity
        multiplyMatrices_identity_d multiplyMatrices_d_identity Let_def zero_rot_def)




section \<open>Single precision\<close>

lemma round_half_even_of_int [simp]: "round_half_even (of_int m) = m"
  by (simp add: round_half_even_def)

text \<open>An integer below \<open>2 ^ 24\<close> in absolute value is a single-precision number.\<close>

lemma float32_nearest_of_int:
  assumes "\<bar>n\<bar> < 2 ^ 24"
  shows "float32_nearest (of_int n) = of_int n"
proof (cases "n = 0")
  case True
  then show ?thesis by (simp add: float32_nearest_def)
next
  case False
  define e where "e = \<lfloor>log 2 \<bar>real_of_int n\<bar>\<rfloor>"
  have "1 \<le> \<bar>n\<bar>" using False by simp
  then have "1 \<le> real_of_int \<bar>n\<bar>" by (simp only: of_int_1_le_iff)
  then have pos: "1 \<le> \<bar>real_of_int n\<bar>" by simp
  have lt: "\<bar>real_of_int n\<bar> < 2 ^ 24"
    using assms by (metis of_int_abs of_int_less_numeral_power_cancel_iff)
  have "0 \<le> log 2 \<bar>real_of_int n\<bar>" using pos by simp
  then have e0: "0 \<le> e" by (simp add: e_def)
  have p24: "(2::real) powr 24 = 2 ^ 24"
    using powr_realpow [of 2 24] by simp
  have "log 2 \<bar>real_of_int n\<bar> < 24"
    using lt pos log_less_iff [of 2 "\<bar>real_of_int n\<bar>" 24] unfolding p24 by linarith
  then have e23: "e \<le> 23" unfolding e_def by linarith
  define k where "k = nat (23 - e)"
  have ex: "float32_exponent (of_int n) = e"
    using e0 by (simp add: float32_exponent_def e_def)
  have "real_of_int (e - 23) = - real k" using e23 by (simp add: k_def)
  then have ulp: "(2::real) powr real_of_int (e - 23) = 1 / 2 ^ k"
    by (simp only: powr_minus powr_realpow zero_less_numeral divide_inverse mult_1)
  have q: "real_of_int n / (1 / 2 ^ k) = of_int (n * 2 ^ k)" by simp
  show ?thesis
    using False unfolding float32_nearest_def ex Let_def ulp q round_half_even_of_int
    by simp
qed

lemma Float32_of_int:
  assumes "\<bar>n\<bar> < 2 ^ 24"
  shows "Float32 (of_int n) = Num (of_int n)"
proof -
  have "real_of_int \<bar>n\<bar> < 2 ^ 24"
    using assms by (simp only: of_int_less_numeral_power_cancel_iff)
  then have "\<bar>real_of_int n\<bar> < 2 ^ 24" by simp
  then have "\<not> 2 ^ 128 - 2 ^ 103 \<le> real_of_int n"
    "\<not> real_of_int n \<le> - (2 ^ 128 - 2 ^ 103)"
    by simp_all
  then show ?thesis
    unfolding Float32_def using float32_nearest_of_int [OF assms] by (simp only: if_False)
qed

lemma Float32_small:
  "Float32 1 = Num 1"
  "numeral w < (2 ^ 24 :: int) \<Longrightarrow> Float32 (numeral w) = Num (numeral w)"
  using Float32_of_int [of 1] Float32_of_int [of "numeral w"] by simp_all

lemma Float32_overflow: "2 ^ 128 - 2 ^ 103 \<le> x \<Longrightarrow> Float32 x = PosInf"
  by (simp add: Float32_def)

lemma is_finite_Float32: "\<bar>x\<bar> < 2 ^ 128 - 2 ^ 103 \<Longrightarrow> is_finite (Float32 x)"
  by (auto simp add: Float32_def)

section \<open>The loop of \<open>updateVertexes\<close>\<close>

lemma length_typed_write [simp]: "length (typed_write a i v) = length a"
  by (simp add: typed_write_def)

lemma nth_typed_write:
  "j < length a \<Longrightarrow> typed_write a i v ! j = (if j = i then v else a ! j)"
  by (simp add: typed_write_def)

lemma writes_upto:
  "length (foldl (\<lambda>array k. typed_write array (off + k) (te ! k)) a [0..<n]) = length a \<and>
   (j < length a \<longrightarrow>
      foldl (\<lambda>array k. typed_write array (off + k) (te ! k)) a [0..<n] ! j =
        (if off \<le> j \<and> j < off + n then te ! (j - off) else a ! j))"
proof (induction n)
  case 0
  show ?case by auto
next
  case (Suc n)
  then show ?case by (auto simp add: nth_typed_write)
qed

lemma length_toArray [simp]: "length (toArray te a off) = length a"
  using writes_upto [of off te a 16] by (simp add: toArray_def)

lemma nth_toArray:
  "j < length a \<Longrightarrow>
     toArray te a off ! j = (if off \<le> j \<and> j < off + 16 then te ! (j - off) else a ! j)"
  using writes_upto [of off te a 16 j] by (simp add: toArray_def)

lemma length_updateVertexes_loop [simp]:
  "length (updateVertexes_loop ov m i tv) = length tv"
proof (induction ov m i tv rule: updateVertexes_loop.induct)
  case (1 ov m i tv)
  show ?case
  proof (cases "i < length ov")
    case True
    with 1 show ?thesis by (subst updateVertexes_loop.simps) (simp add: Let_def)
  next
    case False
    then show ?thesis by (subst updateVertexes_loop.simps) simp
  qed
qed

text \<open>
  Entry \<open>j\<close> of the result: the block that holds \<open>j\<close> starts at \<open>j - (j - i) mod 16\<close>;
  when the loop reaches that block, entry \<open>j\<close> is the entry of the product, and when
  it does not, entry \<open>j\<close> stays.
\<close>

lemma nth_updateVertexes_loop:
  "j < length tv \<Longrightarrow>
     updateVertexes_loop ov m i tv ! j =
       (if i \<le> j \<and> j - (j - i) mod 16 < length ov
        then multiplyMatrices m (fromArray ov (j - (j - i) mod 16)) ! ((j - i) mod 16)
        else tv ! j)"
proof (induction ov m i tv rule: updateVertexes_loop.induct)
  case (1 ov m i tv)
  show ?case
  proof (cases "i < length ov")
    case False
    have "i \<le> j \<Longrightarrow> i \<le> j - (j - i) mod 16"
      by (metis diff_diff_cancel diff_le_mono2 mod_less_eq_dividend)
    with False have "\<not> (i \<le> j \<and> j - (j - i) mod 16 < length ov)" by auto
    moreover have "updateVertexes_loop ov m i tv = tv"
      using False by (subst updateVertexes_loop.simps) simp
    ultimately show ?thesis by presburger
  next
    case True
    define tv' where "tv' = toArray (premultiply (fromArray ov i) m) tv i"
    have step: "updateVertexes_loop ov m i tv = updateVertexes_loop ov m (i + 16) tv'"
      using True by (subst updateVertexes_loop.simps) (simp add: Let_def tv'_def)
    have len: "j < length tv'" using "1.prems" by (simp add: tv'_def)
    have IH: "updateVertexes_loop ov m (i + 16) tv' ! j =
       (if i + 16 \<le> j \<and> j - (j - (i + 16)) mod 16 < length ov
        then multiplyMatrices m (fromArray ov (j - (j - (i + 16)) mod 16))
               ! ((j - (i + 16)) mod 16)
        else tv' ! j)"
      using "1.IH" [OF True refl refl refl] len
      by (simp add: tv'_def)
    consider (before) "j < i" | (block) "i \<le> j" "j < i + 16" | (after) "i + 16 \<le> j"
      by linarith
    then show ?thesis
    proof cases
      case before
      then show ?thesis using IH step "1.prems" by (simp add: tv'_def nth_toArray)
    next
      case block
      then have "(j - i) mod 16 = j - i" by simp
      moreover have "j - (j - i) = i" using block by simp
      ultimately show ?thesis using IH step "1.prems" block True
        by (simp add: tv'_def nth_toArray premultiply_def)
    next
      case after
      then have "(j - (i + 16)) mod 16 = (j - i) mod 16"
        by (metis add.commute diff_diff_left le_add_diff_inverse2 mod_add_self2 add_leD2
            le_diff_conv2)
      moreover have "tv' ! j = tv ! j"
        using after "1.prems" by (simp add: tv'_def nth_toArray)
      ultimately show ?thesis using IH step after by simp
    qed
  qed
qed


lemma mod16_split: "(j::nat) mod 16 = j mod 4 + 4 * (j mod 16 div 4)"
proof -
  have "j mod 16 mod 4 = j mod 4" by (simp add: mod_mod_cancel)
  then show ?thesis using div_mult_mod_eq [of "j mod 16" 4] by simp
qed

lemma column_in_range: "(j::nat) < L \<Longrightarrow> L mod 4 = 0 \<Longrightarrow> j - j mod 4 + 4 \<le> L"
  by presburger

lemma finite_Num: "n < length ov \<Longrightarrow> list_all is_finite ov \<Longrightarrow> \<exists>x. ov ! n = Num x"
proof -
  assume "n < length ov" and "list_all is_finite ov"
  then have "is_finite (ov ! n)" by (simp add: list_all_length)
  then show ?thesis by (cases "ov ! n") simp_all
qed

text \<open>
  With the identity as transform the loop copies the original buffer, when that buffer
  holds whole vertices (its length is a multiple of 4) and finite numbers only.
\<close>

lemma updateVertexes_loop_identity:
  assumes len: "length tv = length ov" and four: "length ov mod 4 = 0" and fin: "list_all is_finite ov"
  shows "updateVertexes_loop ov identity 0 tv = ov"
proof (rule nth_equalityI)
  show "length (updateVertexes_loop ov identity 0 tv) = length ov" using len by simp
next
  fix j
  assume "j < length (updateVertexes_loop ov identity 0 tv)"
  then have j: "j < length ov" using len by simp
  define blk where "blk = j - j mod 16"
  define r where "r = j mod 4"
  define c where "c = j mod 16 div 4"
  have rc: "r < 4" "c < 4" by (simp_all add: r_def c_def)
  have k: "j mod 16 = r + 4 * c" unfolding r_def c_def by (rule mod16_split)
  have jb: "j = blk + (r + 4 * c)" unfolding blk_def k [symmetric] by simp
  have "blk + 4 * c = j - r" using jb by simp
  then have col: "blk + 4 * c + 4 \<le> length ov"
    using column_in_range [OF j four] by (simp add: r_def)
  have V: "\<exists>x. fromArray ov blk ! (4 * c + i) = Num x" if "i < 4" for i
  proof -
    have "4 * c + i < 16" using rc that by simp
    moreover have "4 * c + i + blk < length ov" using col that by simp
    ultimately show ?thesis using finite_Num [OF _ fin]
      by (simp add: nth_fromArray js_read_def)
  qed
  obtain x0 x1 x2 x3 where
    "fromArray ov blk ! (4 * c) = Num x0" "fromArray ov blk ! (4 * c + 1) = Num x1"
    "fromArray ov blk ! (4 * c + 2) = Num x2" "fromArray ov blk ! (4 * c + 3) = Num x3"
    using V [of 0] V [of 1] V [of 2] V [of 3] by auto
  then have "multiplyMatrices identity (fromArray ov blk) ! (r + 4 * c) =
             fromArray ov blk ! (r + 4 * c)"
    using rc by (rule multiplyMatrices_identity_entry [rotated 2])
  also have "\<dots> = ov ! j"
  proof -
    have "r + 4 * c < 16" using rc by simp
    then show ?thesis using j jb by (simp add: nth_fromArray js_read_def add.commute)
  qed
  finally have "multiplyMatrices identity (fromArray ov blk) ! (j mod 16) = ov ! j"
    using k by simp
  moreover have "blk < length ov" using j unfolding blk_def by simp
  ultimately show "updateVertexes_loop ov identity 0 tv ! j = ov ! j"
    using nth_updateVertexes_loop [of j tv ov identity 0] j len
    by (simp add: blk_def)
qed

section \<open>What the calls keep\<close>

lemma length_concat_four:
  "\<forall>v \<in> set vs. length v = 4 \<Longrightarrow> length (concat vs) = 4 * length vs"
  by (induction vs) simp_all

lemma buffers_ok_constructor:
  assumes "\<forall>v \<in> set vs. length v = 4"
    and "\<forall>v \<in> set vs. \<forall>x \<in> set v. \<bar>x\<bar> < 2 ^ 128 - 2 ^ 103"
  shows "buffers_ok (Object4D_constructor vs es fs)"
proof -
  have "is_finite (Float32 x)" if "x \<in> set (concat vs)" for x
  proof -
    from that assms(2) have "\<bar>x\<bar> < 2 ^ 128 - 2 ^ 103" by auto
    then show ?thesis by (rule is_finite_Float32)
  qed
  then have "list_all is_finite (map Float32 (concat vs))"
    unfolding list_all_iff by simp
  then show ?thesis
    using assms(1)
    by (simp add: buffers_ok_def Object4D_constructor_def Let_def length_concat_four)
qed

lemma vertexes_set_rot [simp]: "vertexes (set_rot p v this) = vertexes this"
  by (cases p) simp_all

lemma transformedVertexes_set_rot [simp]:
  "transformedVertexes (set_rot p v this) = transformedVertexes this"
  by (cases p) simp_all

lemma vertexes_do_call [simp]: "vertexes (do_call c this) = vertexes this"
  by (cases c) (simp_all add: updateMatrix4D_def updateVertexes_def Let_def)

lemma vertexes_do_calls [simp]: "vertexes (do_calls cs this) = vertexes this"
  by (induction cs arbitrary: this) simp_all

lemma length_transformedVertexes_do_call [simp]:
  "length (transformedVertexes (do_call c this)) = length (transformedVertexes this)"
  by (cases c) (simp_all add: updateMatrix4D_def updateVertexes_def Let_def)

lemma length_transformedVertexes_do_calls [simp]:
  "length (transformedVertexes (do_calls cs this)) = length (transformedVertexes this)"
  by (induction cs arbitrary: this) simp_all

lemma buffers_ok_do_calls: "buffers_ok this \<Longrightarrow> buffers_ok (do_calls cs this)"
  by (simp add: buffers_ok_def)

lemma rot_updateMatrix4D [simp]: "rot (updateMatrix4D this) = rot this"
  by (simp add: updateMatrix4D_def Let_def)

lemma rot_updateVertexes [simp]: "rot (updateVertexes this) = rot this"
  by (simp add: updateVertexes_def)

lemma matrix4D_updateVertexes [simp]: "matrix4D (updateVertexes this) = matrix4D this"
  by (simp add: updateVertexes_def)

lemma vertexes_updateMatrix4D [simp]: "vertexes (updateMatrix4D this) = vertexes this"
  by (simp add: updateMatrix4D_def Let_def)

lemma transformedVertexes_updateMatrix4D [simp]:
  "transformedVertexes (updateMatrix4D this) = transformedVertexes this"
  by (simp add: updateMatrix4D_def Let_def)

lemma rot_constructor: "rot (Object4D_constructor vs es fs) = zero_rot"
  by (simp add: Object4D_constructor_def Let_def)

lemma matrix4D_constructor: "matrix4D (Object4D_constructor vs es fs) = identity"
  by (simp add: Object4D_constructor_def Let_def fromArray_literal identity_def)

section \<open>Claims about the rotation matrices and the buffers\<close>

text \<open>
  C1. \<open>updateMatrix4D\<close> builds six elementary rotation matrices, one for each of the
  planes xy, yz, xz, xt, yt, zt, each the identity with the block
  \<open>cos \<theta>, sin \<theta>, - sin \<theta>, cos \<theta>\<close> substituted at the places of the two axes of the
  plane, and multiplies them from the right onto an identity accumulator in the order
  xt, yt, zt, xy, yz, xz.
\<close>

theorem updateMatrix4D_composition:
  "dXY a = plane_rotation 0 1 a \<and> dYZ a = plane_rotation 1 2 a \<and> dXZ a = plane_rotation 0 2 a
     \<and> dXT a = plane_rotation 0 3 a \<and> dYT a = plane_rotation 1 3 a
     \<and> dZT a = plane_rotation 2 3 a
     \<and> matrix4D (updateMatrix4D this) =
         mat_mul (mat_mul (mat_mul (mat_mul (mat_mul (mat_mul identity
           (dXT (xt (rot this)))) (dYT (yt (rot this)))) (dZT (zt (rot this))))
           (dXY (xy (rot this)))) (dYZ (yz (rot this)))) (dXZ (xz (rot this)))"
  by (simp add: d_plane_rotation updateMatrix4D_def multiply_def multiplyMatrices_mat_mul
      Let_def)




text \<open>
  C3, as the specification states it: with all six angles 0 the transformed buffer is
  equal to the original buffer after \<open>updateVertexes\<close>. The code does not do that
  for every object: a coordinate beyond the range of single precision is stored as an
  infinity, and the product of the transform's zeros with the infinity is \<open>NaN\<close>.
\<close>

theorem zero_angles_overflow_counterexample:
  "rot overflow_object = zero_rot
     \<and> matrix4D (updateMatrix4D overflow_object) = identity
     \<and> vertexes overflow_object = [PosInf, Num 1, Num 1, Num 1]
     \<and> transformedVertexes (updateVertexes (updateMatrix4D overflow_object)) =
         [PosInf, NaN, NaN, NaN]
     \<and> transformedVertexes (updateVertexes (updateMatrix4D overflow_object)) \<noteq>
         vertexes overflow_object"
proof -
  have r: "rot overflow_object = zero_rot"
    by (simp add: overflow_object_def rot_constructor)
  have m: "matrix4D (updateMatrix4D overflow_object) = identity"
    using r by (rule updateMatrix4D_zero)
  have v: "vertexes overflow_object = [PosInf, Num 1, Num 1, Num 1]"
    by (simp add: overflow_object_def Object4D_constructor_def Let_def Float32_small Float32_overflow)
  have t: "transformedVertexes overflow_object = [PosInf, Num 1, Num 1, Num 1]"
    by (simp add: overflow_object_def Object4D_constructor_def Let_def Float32_small Float32_overflow)
  have once: "updateVertexes_loop ov mat 0 tv =
      toArray (multiplyMatrices mat (fromArray ov 0)) tv 0" if "length ov = 4" for ov mat tv
  proof -
    have "updateVertexes_loop ov mat 0 tv =
        updateVertexes_loop ov mat 16 (toArray (multiplyMatrices mat (fromArray ov 0)) tv 0)"
      using that by (subst updateVertexes_loop.simps) (simp add: Let_def premultiply_def)
    also have "\<dots> = toArray (multiplyMatrices mat (fromArray ov 0)) tv 0"
      using that by (subst updateVertexes_loop.simps) simp
    finally show ?thesis .
  qed
  have "transformedVertexes (updateVertexes (updateMatrix4D overflow_object)) =
      toArray (multiplyMatrices identity (fromArray [PosInf, Num 1, Num 1, Num 1] 0))
        [PosInf, Num 1, Num 1, Num 1] 0"
    by (simp add: updateVertexes_def m v t once)
  also have "\<dots> = [PosInf, NaN, NaN, NaN]"
    by (simp add: fromArray_def js_read_def toArray_def typed_write_def upt16
        multiplyMatrices_literal identity_def num_arith)
  finally have code: "transformedVertexes (updateVertexes (updateMatrix4D overflow_object)) =
      [PosInf, NaN, NaN, NaN]" .
  show ?thesis
    unfolding code v using r m by simp
qed

text \<open>
  C3, amended: if all six angles are 0, the matrix that \<open>updateMatrix4D\<close> stores is the
  identity, and after \<open>updateVertexes\<close> the transformed buffer is equal to the
  original buffer, entry by entry, for every object whose buffers have the same
  length, a multiple of 4, and whose original buffer holds finite numbers only
  (\<open>buffers_ok\<close>; the constructor builds such an object from vertices of four
  coordinates within the range of single precision, and every call keeps it so).
  What the transformed buffer held before does not matter.
\<close>

theorem zero_angles_identity:
  assumes "buffers_ok this" and "rot this = zero_rot"
  shows "matrix4D (updateMatrix4D this) = identity
       \<and> transformedVertexes (updateVertexes (updateMatrix4D this)) = vertexes this"
proof -
  have m: "matrix4D (updateMatrix4D this) = identity"
    using assms(2) by (rule updateMatrix4D_zero)
  have "transformedVertexes (updateVertexes (updateMatrix4D this)) =
        updateVertexes_loop (vertexes this) identity 0 (transformedVertexes this)"
    by (simp add: updateVertexes_def m)
  also have "\<dots> = vertexes this"
    using assms(1) by (intro updateVertexes_loop_identity) (simp_all add: buffers_ok_def)
  finally show ?thesis using m by simp
qed

theorem zero_angles_identity_witness:
  "rot (do_calls [SetRot XY 1, UpdateMatrix4D, UpdateVertexes, SetRot XY 0]
              (Hyperbox 3 3 3 10)) = zero_rot
     \<and> matrix4D (updateMatrix4D
          (do_calls [SetRot XY 1, UpdateMatrix4D, UpdateVertexes, SetRot XY 0]
             (Hyperbox 3 3 3 10))) = identity
     \<and> transformedVertexes (updateVertexes (updateMatrix4D
          (do_calls [SetRot XY 1, UpdateMatrix4D, UpdateVertexes, SetRot XY 0]
             (Hyperbox 3 3 3 10)))) = vertexes (Hyperbox 3 3 3 10)
     \<and> length (vertexes (Hyperbox 3 3 3 10)) = 64"
proof -
  define cs where "cs = [SetRot XY 1, UpdateMatrix4D, UpdateVertexes, SetRot XY 0]"
  have coords: "length v = 4 \<and> (\<forall>x \<in> set v. \<bar>x\<bar> < 2 ^ 128 - 2 ^ 103)"
    if "v \<in> set (hyperboxVertexes 3 3 3 10)" for v
  proof -
    from that obtain i where i: "i < 16" and v: "v = hyperbox_vert 3 3 3 10 i"
      by (auto simp add: hyperboxVertexes_map)
    show ?thesis
      using vert_digits_bit [OF i, of 0] vert_digits_bit [OF i, of 1]
        vert_digits_bit [OF i, of 2] vert_digits_bit [OF i, of 3]
      by (simp add: v hyperbox_vert_eq)
  qed
  have ok: "buffers_ok (do_calls cs (Hyperbox 3 3 3 10))"
    unfolding Hyperbox_def
    by (intro buffers_ok_do_calls buffers_ok_constructor) (use coords in blast)+
  have zero: "rot (do_calls cs (Hyperbox 3 3 3 10)) = zero_rot"
    by (simp add: cs_def Hyperbox_def rot_constructor zero_rot_def)
  have same: "vertexes (do_calls cs (Hyperbox 3 3 3 10)) = vertexes (Hyperbox 3 3 3 10)"
    by (rule vertexes_do_calls)
  have "length (concat (hyperboxVertexes 3 3 3 10)) = 4 * length (hyperboxVertexes 3 3 3 10)"
    by (rule length_concat_four) (use coords in blast)
  then have len: "length (vertexes (Hyperbox 3 3 3 10)) = 64"
    by (simp add: Hyperbox_def Object4D_constructor_def Let_def length_hyperboxVertexes)
  show ?thesis
    using zero_angles_identity [OF ok zero] zero same len
    unfolding cs_def by (simp only: simp_thms)
qed

text \<open>
  C8. For every angle \<open>\<theta>\<close> and every plane, with all angles 0 at the start: turning
  the plane by \<open>\<theta>\<close> (the caller adds \<open>\<theta>\<close> to the angle of the plane), recomputing
  the transform, turning the plane by \<open>- \<theta>\<close> and recomputing again leaves the identity
  as the transform. The two transforms computed for the angles \<open>\<theta>\<close> and \<open>- \<theta>\<close> are
  inverse to each other.
\<close>

theorem rotate_and_back_identity:
  assumes "rot this = zero_rot"
  shows "matrix4D (updateMatrix4D (rotate_by p \<theta> this)) = d_plane p \<theta>
       \<and> matrix4D (updateMatrix4D (rotate_by p (- \<theta>) (updateMatrix4D (rotate_by p \<theta> this))))
           = identity
       \<and> multiplyMatrices (matrix4D (updateMatrix4D (set_rot p \<theta> this)))
                          (matrix4D (updateMatrix4D (set_rot p (- \<theta>) this))) = identity
       \<and> multiplyMatrices (matrix4D (updateMatrix4D (set_rot p (- \<theta>) this)))
                          (matrix4D (updateMatrix4D (set_rot p \<theta> this))) = identity"
proof -
  have start: "get_rot p (rot this) = 0"
    using assms by (cases p) (simp_all add: zero_rot_def)
  have first: "matrix4D (updateMatrix4D (rotate_by p \<theta> this)) = d_plane p \<theta>"
    using updateMatrix4D_single [OF assms, of p \<theta>] by (simp add: rotate_by_def start)
  have returned: "rot (rotate_by p (- \<theta>) (updateMatrix4D (rotate_by p \<theta> this))) = zero_rot"
    using assms by (cases p) (simp_all add: rotate_by_def zero_rot_def)
  have second: "matrix4D (updateMatrix4D
        (rotate_by p (- \<theta>) (updateMatrix4D (rotate_by p \<theta> this)))) = identity"
    using returned by (rule updateMatrix4D_zero)
  have inv: "multiplyMatrices (d_plane p a) (d_plane p (- a)) = identity" for a
    by (cases p) (simp_all add: multiplyMatrices_d_inverse)
  have "multiplyMatrices (d_plane p (- \<theta>)) (d_plane p \<theta>) = identity"
    using inv [of "- \<theta>"] by simp
  with first second inv [of \<theta>] show ?thesis
    by (simp add: updateMatrix4D_single [OF assms])
qed

theorem rotate_and_back_identity_witness:
  "rot (Hyperbox 3 3 3 10) = zero_rot
     \<and> matrix4D (updateMatrix4D (rotate_by XT (- 1)
          (updateMatrix4D (rotate_by XT 1 (Hyperbox 3 3 3 10))))) = identity"
proof -
  have zero: "rot (Hyperbox 3 3 3 10) = zero_rot"
    by (simp add: Hyperbox_def rot_constructor)
  show ?thesis
    using rotate_and_back_identity [OF zero, of XT 1] zero by simp
qed

text \<open>
  Assigning \<open>- \<theta>\<close> to the angle, in place of turning the plane back by \<open>\<theta>\<close>, leaves
  the rotation by \<open>- \<theta>\<close>: the transform is computed from the angles alone.
\<close>

lemma assign_negated_angle:
  assumes "rot this = zero_rot"
  shows "matrix4D (updateMatrix4D (set_rot p (- \<theta>) (updateMatrix4D (set_rot p \<theta> this))))
           = d_plane p (- \<theta>)"
proof -
  have "rot (set_rot p (- \<theta>) (updateMatrix4D (set_rot p \<theta> this))) = rot (set_rot p (- \<theta>) this)"
    by (cases p) simp_all
  then have "matrix4D (updateMatrix4D (set_rot p (- \<theta>) (updateMatrix4D (set_rot p \<theta> this))))
      = matrix4D (updateMatrix4D (set_rot p (- \<theta>) this))"
    by (simp add: updateMatrix4D_def Let_def)
  then show ?thesis by (simp add: updateMatrix4D_single [OF assms])
qed

text \<open>
  C9. The original buffer does not change after construction: no sequence of
  assignments to the angles and of calls of \<open>updateMatrix4D\<close> and \<open>updateVertexes\<close>
  changes \<open>vertexes\<close>. \<open>updateVertexes\<close> changes the transformed buffer and the
  \<open>needsUpdate\<close> flags of the children and nothing else, and \<open>updateMatrix4D\<close> changes
  the matrix and nothing else.
\<close>

theorem vertexes_immutable:
  "vertexes (do_calls cs this) = vertexes this
     \<and> length (transformedVertexes (do_calls cs this)) = length (transformedVertexes this)
     \<and> updateVertexes this =
         this\<lparr>transformedVertexes := transformedVertexes (updateVertexes this),
               children := children (updateVertexes this)\<rparr>
     \<and> map geometry_index (children (updateVertexes this)) = map geometry_index (children this)
     \<and> map position_needsUpdate (children (updateVertexes this)) =
         map (\<lambda>child. True) (children this)
     \<and> updateMatrix4D this = this\<lparr>matrix4D := matrix4D (updateMatrix4D this)\<rparr>"
  by (simp add: updateVertexes_def updateMatrix4D_def Let_def comp_def)

text \<open>
  C10. Right after construction all six angles are 0, the matrix is the identity, and
  the transformed buffer is equal to the original buffer, with the same length.
\<close>

theorem constructor_initial_state:
  "rot (Object4D_constructor vs es fs) = \<lparr>xy = 0, xz = 0, yz = 0, xt = 0, yt = 0, zt = 0\<rparr>
     \<and> get_rot p (rot (Object4D_constructor vs es fs)) = 0
     \<and> matrix4D (Object4D_constructor vs es fs) = identity
     \<and> vertexes (Object4D_constructor vs es fs) = map Float32 (concat vs)
     \<and> transformedVertexes (Object4D_constructor vs es fs) =
         vertexes (Object4D_constructor vs es fs)
     \<and> length (transformedVertexes (Object4D_constructor vs es fs)) =
         length (vertexes (Object4D_constructor vs es fs))"
proof -
  have "get_rot p zero_rot = 0" by (cases p) (simp_all add: zero_rot_def)
  then show ?thesis
    by (simp add: rot_constructor matrix4D_constructor)
       (simp add: Object4D_constructor_def Let_def zero_rot_def)
qed


end
